theory Spec2Isabelle
  imports Complex_Main "HOL-Library.Log_Nat"
begin

section \<open>JavaScript numbers\<close>

text \<open>
  A JavaScript number is an IEEE 754 double: a finite value, an infinity or \<open>NaN\<close>.
  \<open>Fin x\<close> stands for the finite double with the real value \<open>x\<close> (\<open>Fin 0\<close> is
  \<open>+0\<close>) and \<open>NegZero\<close> for \<open>-0\<close>. An arithmetic operator computes the exact real
  result and rounds it to the nearest double, a tie to the even significand; a result
  of magnitude \<open>2 ^ 1024\<close> or more overflows to an infinity.
\<close>

datatype jsnum = Fin real | NegZero | PosInf | NegInf | NaN

text \<open>
  Rounding a positive real \<open>r\<close>: its binary exponent \<open>expo r\<close> is the integer
  \<open>e\<close> with \<open>2 ^ e \<le> r < 2 ^ (e + 1)\<close>, computed from the bit length of the
  integer part of \<open>r\<close> or of \<open>1 / r\<close>. The doubles near \<open>r\<close> are the multiples
  of \<open>2\<close> to the power \<open>ulp_exp r\<close> (53 significant bits, or the fixed spacing of
  the subnormal range), and \<open>r\<close> is rounded to the nearest such multiple.
\<close>

definition expo :: "real \<Rightarrow> int" where
  "expo r =
     (if 1 \<le> r then int (floorlog 2 (nat \<lfloor>r\<rfloor>)) - 1
      else - int (floorlog 2 (nat (\<lceil>1 / r\<rceil> - 1))))"

definition round_half_even :: "real \<Rightarrow> int" where
  "round_half_even q =
     (let n = \<lfloor>q\<rfloor>; f = q - of_int n
      in if f < 1 / 2 then n else if 1 / 2 < f then n + 1 else if even n then n else n + 1)"

definition ulp_exp :: "real \<Rightarrow> int" where
  "ulp_exp r = max (expo r) (- 1022) - 52"

definition round_mag :: "real \<Rightarrow> real" where
  "round_mag r =
     (if r \<le> 0 then 0
      else power_int 2 (ulp_exp r) * of_int (round_half_even (r / power_int 2 (ulp_exp r))))"

text \<open>The double for a sign and an exact magnitude.\<close>

definition to_double :: "bool \<Rightarrow> real \<Rightarrow> jsnum" where
  "to_double neg r =
     (let m = round_mag r
      in if 2 ^ 1024 \<le> m then (if neg then NegInf else PosInf)
         else if m = 0 then (if neg then NegZero else Fin 0)
         else Fin (if neg then - m else m))"

text \<open>A real is a finite double when rounding leaves it as it is.\<close>

definition is_double :: "real \<Rightarrow> bool" where
  "is_double x = (to_double (x < 0) \<bar>x\<bar> = Fin x)"

fun is_neg :: "jsnum \<Rightarrow> bool" where
  "is_neg (Fin a) = (a < 0)"
| "is_neg NegZero = True"
| "is_neg NegInf = True"
| "is_neg x = False"

fun is_zero :: "jsnum \<Rightarrow> bool" where
  "is_zero (Fin a) = (a = 0)"
| "is_zero NegZero = True"
| "is_zero x = False"

fun is_inf :: "jsnum \<Rightarrow> bool" where
  "is_inf PosInf = True"
| "is_inf NegInf = True"
| "is_inf x = False"

fun is_finite :: "jsnum \<Rightarrow> bool" where
  "is_finite (Fin a) = True"
| "is_finite NegZero = True"
| "is_finite x = False"

text \<open>The value and the magnitude of a finite number.\<close>

fun val :: "jsnum \<Rightarrow> real" where
  "val (Fin a) = a"
| "val x = 0"

fun mag :: "jsnum \<Rightarrow> real" where
  "mag (Fin a) = \<bar>a\<bar>"
| "mag x = 0"

text \<open>
  The operator \<open>-\<close>. An exact difference of zero is \<open>+0\<close>, except that
  \<open>-0 - +0\<close> is \<open>-0\<close>.
\<close>

definition js_sub :: "jsnum \<Rightarrow> jsnum \<Rightarrow> jsnum" where
  "js_sub x y =
     (if x = NaN \<or> y = NaN then NaN
      else if is_inf x then (if x = y then NaN else x)
      else if is_inf y then (if y = PosInf then NegInf else PosInf)
      else (let r = val x - val y
            in if r = 0 then (if x = NegZero \<and> y \<noteq> NegZero then NegZero else Fin 0)
               else to_double (r < 0) \<bar>r\<bar>))"

text \<open>The operators \<open>*\<close> and \<open>/\<close>: the sign of the result is the exclusive or of the signs.\<close>

definition js_mul :: "jsnum \<Rightarrow> jsnum \<Rightarrow> jsnum" where
  "js_mul x y =
     (if x = NaN \<or> y = NaN then NaN
      else if is_inf x \<or> is_inf y
        then (if is_zero x \<or> is_zero y then NaN
              else if is_neg x \<noteq> is_neg y then NegInf else PosInf)
      else to_double (is_neg x \<noteq> is_neg y) (mag x * mag y))"

definition js_div :: "jsnum \<Rightarrow> jsnum \<Rightarrow> jsnum" where
  "js_div x y =
     (if x = NaN \<or> y = NaN then NaN
      else if is_inf x
        then (if is_inf y then NaN else if is_neg x \<noteq> is_neg y then NegInf else PosInf)
      else if is_inf y then (if is_neg x \<noteq> is_neg y then NegZero else Fin 0)
      else if is_zero y
        then (if is_zero x then NaN else if is_neg x \<noteq> is_neg y then NegInf else PosInf)
      else to_double (is_neg x \<noteq> is_neg y) (mag x / mag y))"

definition trunc :: "real \<Rightarrow> int" where
  "trunc x = (if 0 \<le> x then \<lfloor>x\<rfloor> else \<lceil>x\<rceil>)"

text \<open>
  The operator \<open>%\<close>: the remainder of the truncated quotient, exact on doubles, with the
  sign of the dividend.
\<close>

definition js_rem :: "jsnum \<Rightarrow> jsnum \<Rightarrow> jsnum" where
  "js_rem x y =
     (if x = NaN \<or> y = NaN \<or> is_inf x \<or> is_zero y then NaN
      else if is_inf y then x
      else (let r = val x - val y * of_int (trunc (val x / val y))
            in if r = 0 then (if is_neg x then NegZero else Fin 0)
               else to_double (r < 0) \<bar>r\<bar>))"

text \<open>The operator \<open>>\<close>: false whenever an operand is \<open>NaN\<close>; the two zeros are equal.\<close>

definition js_gt :: "jsnum \<Rightarrow> jsnum \<Rightarrow> bool" where
  "js_gt x y =
     (if x = NaN \<or> y = NaN then False
      else if x = PosInf then y \<noteq> PosInf
      else if y = NegInf then x \<noteq> NegInf
      else if x = NegInf \<or> y = PosInf then False
      else val y < val x)"

fun js_floor :: "jsnum \<Rightarrow> jsnum" where
  "js_floor (Fin a) = Fin (of_int \<lfloor>a\<rfloor>)"
| "js_floor x = x"

text \<open>
  \<open>Math.round\<close> gives the nearest integer, a half towards \<open>+Infinity\<close>, and \<open>-0\<close>
  for an argument from \<open>-0.5\<close> up to \<open>-0\<close>.
\<close>

fun js_round :: "jsnum \<Rightarrow> jsnum" where
  "js_round (Fin a) = (if - 1 / 2 \<le> a \<and> a < 0 then NegZero else Fin (of_int \<lfloor>a + 1 / 2\<rfloor>))"
| "js_round x = x"

text \<open>
  \<open>x || d\<close> on an optional number: \<open>undefined\<close> (here \<open>None\<close>), both zeros and
  \<open>NaN\<close> are falsy and give \<open>d\<close>; every other number is kept.
\<close>

fun js_falsy :: "jsnum \<Rightarrow> bool" where
  "js_falsy (Fin a) = (a = 0)"
| "js_falsy NegZero = True"
| "js_falsy NaN = True"
| "js_falsy x = False"

definition js_or :: "jsnum option \<Rightarrow> jsnum \<Rightarrow> jsnum" where
  "js_or x d = (case x of None \<Rightarrow> d | Some v \<Rightarrow> if js_falsy v then d else v)"

section \<open>Errors\<close>

text \<open>
  \<open>TypeError\<close> is what JavaScript throws on reading a property of \<open>undefined\<close>.
  \<open>InvalidConfiguration\<close> and \<open>InvalidViewport\<close> are the error kinds of the
  specification.
\<close>

datatype error = TypeError | InvalidConfiguration | InvalidViewport

section \<open>The engine of \<open>index.js\<close>\<close>

text \<open>The \<open>size\<close> object, the canvas element and what the browser supplies.\<close>

record dims =
  d_height :: jsnum
  d_width :: jsnum

datatype css_length = Unset | Px jsnum

record canvas =
  attr_height :: jsnum
  attr_width :: jsnum
  style_height :: css_length
  style_width :: css_length

record rect =
  rect_left :: real
  rect_top :: real
  rect_width :: real
  rect_height :: real

text \<open>
  \<open>window.devicePixelRatio\<close>, and the layout that answers
  \<open>canvas.getBoundingClientRect()\<close> for a canvas with given attributes and styles.
\<close>

record host =
  devicePixelRatio :: jsnum
  getBoundingClientRect :: "canvas \<Rightarrow> rect"

record ag2d =
  canvas :: canvas
  fps :: jsnum
  waitForAssets :: bool
  backgroundColour :: string
  size_wh :: dims
  lastUpdate :: jsnum
  lastDraw :: jsnum
  interval :: jsnum
  ratio :: "jsnum option"
  canvasBounds :: "rect option"
  options_ratio :: "jsnum option"
  options_canvasBounds :: "rect option"

text \<open>
  What the engine calls is recorded as a trace: \<open>options.init()\<close>, the direct call of
  \<open>options.draw()\<close> in \<open>setUpCanvas\<close>, \<open>this.update(deltaTime)\<close> and
  \<open>this.draw()\<close> with the factor it scales the context by.
\<close>

datatype event = OptionsInit | OptionsDraw | Update jsnum | Draw jsnum

definition update :: "ag2d \<Rightarrow> jsnum \<Rightarrow> event list" where
  "update s deltaTime = [Update deltaTime]"

definition draw :: "host \<Rightarrow> ag2d \<Rightarrow> event list" where
  "draw w s =
     [Draw (js_mul (devicePixelRatio w) (case ratio s of None \<Rightarrow> NaN | Some r \<Rightarrow> r))]"

text \<open>
  One run of \<open>renderLoop\<close> reads \<open>window.performance.now()\<close> up to three times: for
  \<open>timeNow\<close>, for the new \<open>lastUpdate\<close> and, when it draws, for the new
  \<open>lastDraw\<close>.
\<close>

record tick =
  now_timeNow :: real
  now_lastUpdate :: real
  now_lastDraw :: real

definition renderLoop :: "host \<Rightarrow> ag2d \<Rightarrow> tick \<Rightarrow> ag2d \<times> event list" where
  "renderLoop w s tk =
     (let timeNow = Fin (now_timeNow tk);
          drawDeltaTime = js_sub timeNow (lastDraw s);
          updateDeltaTime = js_sub timeNow (lastUpdate s);
          ev = update s updateDeltaTime;
          s1 = s\<lparr>lastUpdate := Fin (now_lastUpdate tk)\<rparr>
      in if js_gt drawDeltaTime (interval s1)
         then (s1\<lparr>lastDraw := js_sub (Fin (now_lastDraw tk)) (js_rem drawDeltaTime (interval s1))\<rparr>,
               ev @ draw w s1)
         else (s1, ev))"

text \<open>The host calls \<open>renderLoop\<close> once per frame; the trace is kept tick by tick.\<close>

fun run :: "host \<Rightarrow> ag2d \<Rightarrow> tick list \<Rightarrow> ag2d \<times> event list list" where
  "run w s [] = (s, [])"
| "run w s (tk # tks) =
     (case renderLoop w s tk of (s1, ev) \<Rightarrow>
        (case run w s1 tks of (s2, evs) \<Rightarrow> (s2, ev # evs)))"

fun is_update :: "event \<Rightarrow> bool" where
  "is_update (Update d) = True"
| "is_update e = False"

fun is_draw :: "event \<Rightarrow> bool" where
  "is_draw (Draw f) = True"
| "is_draw e = False"


text \<open>
  \<open>resizeCanvas\<close> fits the requested size to the aspect ratio of \<open>this.size\<close>,
  stores the ratio, sets the canvas attributes and styles and reads the bounds back.
  The method has no \<open>throw\<close>.
\<close>

definition resizeCanvas :: "host \<Rightarrow> ag2d \<Rightarrow> jsnum \<Rightarrow> jsnum \<Rightarrow> ag2d" where
  "resizeCanvas w s width height =
     (let ratio0 = js_div width height;
          destRatio = js_div (d_width (size_wh s)) (d_height (size_wh s));
          width1 = (if js_gt ratio0 destRatio then js_floor (js_mul height destRatio) else width);
          height1 = (if js_gt ratio0 destRatio then height else js_floor (js_div width destRatio));
          r = js_div width1 (d_width (size_wh s));
          c = (canvas s)\<lparr>attr_height := js_round (js_mul height1 (devicePixelRatio w)),
                         attr_width := js_round (js_mul width1 (devicePixelRatio w)),
                         style_height := Px height1,
                         style_width := Px width1\<rparr>;
          b = getBoundingClientRect w c
      in s\<lparr>canvas := c, ratio := Some r, canvasBounds := Some b,
            options_ratio := Some r, options_canvasBounds := Some b\<rparr>)"

text \<open>
  The argument of the constructor: the user's object, whose property \<open>options\<close> holds
  the settings. \<open>None\<close> stands for \<open>undefined\<close>; \<open>o_assets\<close> tells whether
  \<open>options.options.assets\<close> is truthy.
\<close>

record engine_options =
  o_fps :: "jsnum option"
  o_waitForAssets :: "bool option"
  o_backgroundColour :: "string option"
  o_size :: "dims option"
  o_assets :: bool

record user_options =
  options :: "engine_options option"

text \<open>
  \<open>setUpCanvas\<close>: \<open>inject\<close> and \<open>bindEventListeners\<close> only wire references and
  listeners; the last call is the first run of \<open>renderLoop\<close>. The user's object is
  taken to supply the hooks \<open>init\<close>, \<open>draw\<close> and \<open>update\<close> that the engine calls.
\<close>

definition setUpCanvas :: "host \<Rightarrow> ag2d \<Rightarrow> tick \<Rightarrow> ag2d \<times> event list" where
  "setUpCanvas w s tk =
     (let s1 = resizeCanvas w s (d_width (size_wh s)) (d_height (size_wh s))
      in case renderLoop w s1 tk of (s2, ev) \<Rightarrow> (s2, [OptionsInit, OptionsDraw] @ ev))"

text \<open>
  \<open>init\<close>: when assets are awaited, \<open>setUpCanvas\<close> is handed to the asset loader as a
  callback and the constructor returns without it.
\<close>

definition init :: "host \<Rightarrow> ag2d \<Rightarrow> engine_options \<Rightarrow> tick \<Rightarrow> ag2d \<times> event list" where
  "init w s oo tk =
     (if waitForAssets s \<and> o_assets oo then (s, []) else setUpCanvas w s tk)"

text \<open>
  The constructor reads the clock twice, for \<open>lastUpdate\<close> and \<open>lastDraw\<close>.
  \<open>this.options = options || {}\<close> followed by \<open>this.options.options.fps\<close> throws a
  \<open>TypeError\<close> when the argument or its property \<open>options\<close> is missing.
\<close>

definition AG2D ::
  "host \<Rightarrow> canvas \<Rightarrow> user_options option \<Rightarrow> real \<Rightarrow> real \<Rightarrow> tick \<Rightarrow> error + ag2d \<times> event list" where
  "AG2D w cv opts nowUpdate nowDraw tk =
     (case (case opts of None \<Rightarrow> None | Some uo \<Rightarrow> options uo) of
        None \<Rightarrow> Inl TypeError
      | Some oo \<Rightarrow>
          (let f = js_or (o_fps oo) (Fin 60);
               s = \<lparr>canvas = cv,
                    fps = f,
                    waitForAssets = (case o_waitForAssets oo of None \<Rightarrow> False | Some b \<Rightarrow> b),
                    backgroundColour =
                      (case o_backgroundColour oo of None \<Rightarrow> ''transparent''
                       | Some c \<Rightarrow> if c = [] then ''transparent'' else c),
                    size_wh =
                      (case o_size oo of None \<Rightarrow> \<lparr>d_height = Fin 150, d_width = Fin 300\<rparr>
                       | Some d \<Rightarrow> d),
                    lastUpdate = Fin nowUpdate,
                    lastDraw = Fin nowDraw,
                    interval = js_div (Fin 1000) f,
                    ratio = None,
                    canvasBounds = None,
                    options_ratio = None,
                    options_canvasBounds = None\<rparr>
           in Inr (init w s oo tk)))"

section \<open>The engine of \<open>modules/ag2d.js\<close>\<close>

record ag2d_module =
  m_canvas :: canvas
  m_fps :: jsnum
  m_backgroundColour :: string
  m_size :: dims
  m_lastDraw :: jsnum
  m_interval :: jsnum

definition update_module :: "ag2d_module \<Rightarrow> jsnum \<Rightarrow> event list" where
  "update_module s deltaTime = [Update deltaTime]"

definition draw_module :: "host \<Rightarrow> ag2d_module \<Rightarrow> event list" where
  "draw_module w s = [Draw (devicePixelRatio w)]"

definition renderLoop_module :: "host \<Rightarrow> ag2d_module \<Rightarrow> real \<Rightarrow> ag2d_module \<times> event list" where
  "renderLoop_module w s now =
     (let timeNow = Fin now;
          deltaTime = js_sub timeNow (m_lastDraw s);
          ev = update_module s deltaTime
      in if js_gt deltaTime (m_interval s)
         then (s\<lparr>m_lastDraw := js_sub timeNow (js_rem deltaTime (m_interval s))\<rparr>,
               ev @ draw_module w s)
         else (s, ev))"

fun run_module :: "host \<Rightarrow> ag2d_module \<Rightarrow> real list \<Rightarrow> ag2d_module \<times> event list list" where
  "run_module w s [] = (s, [])"
| "run_module w s (t # ts) =
     (case renderLoop_module w s t of (s1, ev) \<Rightarrow>
        (case run_module w s1 ts of (s2, evs) \<Rightarrow> (s2, ev # evs)))"

definition resizeCanvas_module :: "host \<Rightarrow> ag2d_module \<Rightarrow> jsnum \<Rightarrow> jsnum \<Rightarrow> ag2d_module" where
  "resizeCanvas_module w s width height =
     s\<lparr>m_canvas := (m_canvas s)\<lparr>attr_height := js_round (js_mul height (devicePixelRatio w)),
                                  attr_width := js_round (js_mul width (devicePixelRatio w)),
                                  style_height := Px height,
                                  style_width := Px width\<rparr>\<rparr>"

definition init_module :: "host \<Rightarrow> ag2d_module \<Rightarrow> real \<Rightarrow> ag2d_module \<times> event list" where
  "init_module w s now =
     (let s1 = resizeCanvas_module w s (d_width (m_size s)) (d_height (m_size s))
      in case renderLoop_module w s1 now of (s2, ev) \<Rightarrow> (s2, [OptionsInit, OptionsDraw] @ ev))"

definition AG2D_module ::
  "host \<Rightarrow> canvas \<Rightarrow> user_options option \<Rightarrow> real \<Rightarrow> real \<Rightarrow> error + ag2d_module \<times> event list" where
  "AG2D_module w cv opts nowDraw now =
     (case (case opts of None \<Rightarrow> None | Some uo \<Rightarrow> options uo) of
        None \<Rightarrow> Inl TypeError
      | Some oo \<Rightarrow>
          (let f = js_or (o_fps oo) (Fin 60);
               s = \<lparr>m_canvas = cv,
                    m_fps = f,
                    m_backgroundColour =
                      (case o_backgroundColour oo of None \<Rightarrow> ''transparent''
                       | Some c \<Rightarrow> if c = [] then ''transparent'' else c),
                    m_size =
                      (case o_size oo of None \<Rightarrow> \<lparr>d_height = Fin 150, d_width = Fin 300\<rparr>
                       | Some d \<Rightarrow> d),
                    m_lastDraw = Fin nowDraw,
                    m_interval = js_div (Fin 1000) f\<rparr>
           in Inr (init_module w s now)))"

text \<open>The user's object whose settings are \<open>oo\<close> with \<open>fps\<close> set to \<open>f\<close>.\<close>

definition with_fps :: "engine_options \<Rightarrow> jsnum \<Rightarrow> user_options option" where
  "with_fps oo f = Some \<lparr>options = Some (oo\<lparr>o_fps := Some f\<rparr>)\<rparr>"

section \<open>The animation model of \<open>models/Animation.js\<close>\<close>

datatype ptype = TAny | TNumber | TArray | TBoolean | TString | TObject

datatype jsval =
  VNumber jsnum | VBoolean bool | VString string | VArray "jsval list"
  | VObject "(string \<times> jsval) list"

text \<open>A schema entry; a missing \<open>required\<close> key is falsy, a missing \<open>default\<close> is \<open>None\<close>.\<close>

record property =
  p_type :: ptype
  p_required :: bool
  p_default :: "jsval option"

definition Animation_schema :: "(string \<times> property) list" where
  "Animation_schema =
     [(''context'', \<lparr>p_type = TAny, p_required = True, p_default = None\<rparr>),
      (''fps'', \<lparr>p_type = TNumber, p_required = False, p_default = Some (VNumber (Fin 60))\<rparr>),
      (''frames'', \<lparr>p_type = TArray, p_required = True, p_default = None\<rparr>),
      (''loop'', \<lparr>p_type = TBoolean, p_required = False, p_default = Some (VBoolean True)\<rparr>),
      (''name'', \<lparr>p_type = TString, p_required = True, p_default = None\<rparr>),
      (''spriteSheet'', \<lparr>p_type = TObject, p_required = True, p_default = None\<rparr>)]"

text \<open>
  Modelled from the spec: the type check of the missing validator. A value is valid for
  a field when it is of the kind the schema names; \<open>any\<close> accepts every value.
\<close>

fun has_type :: "ptype \<Rightarrow> jsval \<Rightarrow> bool" where
  "has_type TAny v = True"
| "has_type TNumber (VNumber n) = True"
| "has_type TArray (VArray xs) = True"
| "has_type TBoolean (VBoolean b) = True"
| "has_type TString (VString x) = True"
| "has_type TObject (VObject kvs) = True"
| "has_type t v = False"

text \<open>
  Modelled from the spec: the conditions of the specification's data model on the
  fields of an animation definition that the schema of \<open>Animation.js\<close> does not
  express: \<open>frames\<close> is a non-empty sequence and \<open>fps\<close> is a positive number. The
  uniqueness of \<open>name\<close> is a property of a set of definitions and is not a condition
  on one record.
\<close>

fun Animation_field_valid :: "string \<Rightarrow> jsval \<Rightarrow> bool" where
  "Animation_field_valid k (VArray xs) = (if k = ''frames'' then xs \<noteq> [] else True)"
| "Animation_field_valid k (VNumber n) = (if k = ''fps'' then js_gt n (Fin 0) else True)"
| "Animation_field_valid k v = True"

text \<open>
  Modelled from the spec: \<open>modules/PropertyValidator\<close>, which \<open>Animation.js\<close> requires,
  is missing. By the specification a record is validated against the schema and the
  conditions \<open>valid\<close> of the data model: a missing required field or an invalid field
  fails construction with \<open>InvalidConfiguration\<close> and no object is produced; a missing
  field with a default takes the default.
\<close>

fun PropertyValidator ::
  "(string \<times> property) list \<Rightarrow> (string \<Rightarrow> jsval \<Rightarrow> bool) \<Rightarrow> (string \<rightharpoonup> jsval) \<Rightarrow>
   error + (string \<times> jsval) list" where
  "PropertyValidator [] valid props = Inr []"
| "PropertyValidator ((k, p) # schema) valid props =
     (case props k of
        None \<Rightarrow>
          (if p_required p then Inl InvalidConfiguration
           else (case PropertyValidator schema valid props of
                   Inl e \<Rightarrow> Inl e
                 | Inr obj \<Rightarrow> Inr (case p_default p of None \<Rightarrow> obj | Some d \<Rightarrow> (k, d) # obj)))
      | Some v \<Rightarrow>
          (if has_type (p_type p) v \<and> valid k v
           then (case PropertyValidator schema valid props of
                   Inl e \<Rightarrow> Inl e
                 | Inr obj \<Rightarrow> Inr ((k, v) # obj))
           else Inl InvalidConfiguration))"

definition Animation :: "(string \<rightharpoonup> jsval) \<Rightarrow> error + (string \<times> jsval) list" where
  "Animation props = PropertyValidator Animation_schema Animation_field_valid props"

section \<open>The viewport fit as the specification words it\<close>

text \<open>
  The algorithm of the specification's viewport fitter, with the arithmetic of doubles:
  the two ratios, the branch, the floored dimension, the scale, the rounded
  backing-store size and the CSS size. It is compared with \<open>resizeCanvas\<close> below.
\<close>

record viewport_transform =
  scale :: jsnum
  canvasPixelWidth :: jsnum
  canvasPixelHeight :: jsnum
  cssWidth :: jsnum
  cssHeight :: jsnum

definition viewport_fit_spec ::
  "jsnum \<Rightarrow> jsnum \<Rightarrow> jsnum \<Rightarrow> jsnum \<Rightarrow> jsnum \<Rightarrow> viewport_transform" where
  "viewport_fit_spec logicalWidth logicalHeight containerWidth containerHeight pixelDensity =
     (let containerRatio = js_div containerWidth containerHeight;
          logicalRatio = js_div logicalWidth logicalHeight;
          fitHeight = (if js_gt containerRatio logicalRatio then containerHeight
                       else js_floor (js_div containerWidth logicalRatio));
          fitWidth = (if js_gt containerRatio logicalRatio
                      then js_floor (js_mul fitHeight logicalRatio)
                      else containerWidth)
      in \<lparr>scale = js_div fitWidth logicalWidth,
          canvasPixelWidth = js_round (js_mul fitWidth pixelDensity),
          canvasPixelHeight = js_round (js_mul fitHeight pixelDensity),
          cssWidth = fitWidth,
          cssHeight = fitHeight\<rparr>)"

section \<open>Sample values\<close>

definition sample_canvas :: canvas where
  "sample_canvas =
     \<lparr>attr_height = Fin 150, attr_width = Fin 300, style_height = Unset, style_width = Unset\<rparr>"

definition sample_host :: host where
  "sample_host =
     \<lparr>devicePixelRatio = Fin 2,
      getBoundingClientRect =
        (\<lambda>c. \<lparr>rect_left = 0, rect_top = 0, rect_width = 300, rect_height = 150\<rparr>)\<rparr>"

definition sample_options :: engine_options where
  "sample_options =
     \<lparr>o_fps = Some (Fin 50), o_waitForAssets = None, o_backgroundColour = None,
      o_size = Some \<lparr>d_height = Fin 200, d_width = Fin 300\<rparr>, o_assets = False\<rparr>"

definition sample_tick :: tick where
  "sample_tick = \<lparr>now_timeNow = 1, now_lastUpdate = 2, now_lastDraw = 3\<rparr>"

text \<open>An engine at 50 frames per second that last updated and drew at time 0.\<close>

definition sample_engine :: ag2d where
  "sample_engine =
     \<lparr>canvas = sample_canvas, fps = Fin 50, waitForAssets = False,
      backgroundColour = ''transparent'',
      size_wh = \<lparr>d_height = Fin 200, d_width = Fin 300\<rparr>,
      lastUpdate = Fin 0, lastDraw = Fin 0, interval = Fin 20,
      ratio = Some (Fin 1), canvasBounds = None,
      options_ratio = Some (Fin 1), options_canvasBounds = None\<rparr>"

definition sample_module :: ag2d_module where
  "sample_module =
     \<lparr>m_canvas = sample_canvas, m_fps = Fin 50, m_backgroundColour = ''transparent'',
      m_size = \<lparr>d_height = Fin 200, d_width = Fin 300\<rparr>,
      m_lastDraw = Fin 0, m_interval = Fin 20\<rparr>"

section \<open>Rounding to a double\<close>

lemma expo_bounds:
  assumes "0 < r"
  shows "power_int 2 (expo r) \<le> r" and "r < power_int 2 (expo r + 1)"
proof -
  have "power_int 2 (expo r) \<le> r \<and> r < power_int 2 (expo r + 1)"
  proof (cases "1 \<le> r")
    case True
    define n where "n = nat \<lfloor>r\<rfloor>"
    define j where "j = floorlog 2 n"
    have fl: "0 < \<lfloor>r\<rfloor>" using True by linarith
    then have rn: "real n = of_int \<lfloor>r\<rfloor>" by (simp add: n_def)
    have n: "0 < n" "real n \<le> r" "r < real n + 1"
      using fl unfolding rn by (simp add: n_def, linarith, linarith)
    from floorlog_bounds [of n 2] n(1) have b: "2 ^ (j - 1) \<le> n" "n < 2 ^ j"
      by (simp_all add: j_def)
    have j: "0 < j" using b(2) n(1) by (cases j) simp_all
    have e: "expo r = int (j - 1)" using True j by (simp add: expo_def n_def j_def)
    have "(2::real) ^ (j - 1) \<le> real n" using b(1) by (metis of_nat_le_iff of_nat_numeral of_nat_power)
    then have lo: "(2::real) ^ (j - 1) \<le> r" using n(2) by linarith
    have "n + 1 \<le> 2 ^ j" using b(2) by simp
    then have "real (n + 1) \<le> 2 ^ j" by (metis of_nat_le_iff of_nat_numeral of_nat_power)
    then have "real n + 1 \<le> 2 ^ j" by (simp only: of_nat_add of_nat_1)
    then have hi: "r < 2 ^ j" using n(3) by linarith
    have "int (j - 1) + 1 = int j" using j by simp
    then have p2: "power_int (2::real) (int (j - 1) + 1) = 2 ^ j"
      by (simp only: power_int_of_nat)
    have p1: "power_int (2::real) (int (j - 1)) = 2 ^ (j - 1)"
      by (simp only: power_int_of_nat)
    show ?thesis unfolding e p1 p2 by (rule conjI [OF lo hi])
  next
    case False
    define c where "c = \<lceil>1 / r\<rceil>"
    define n where "n = nat (c - 1)"
    define j where "j = floorlog 2 n"
    have y: "1 < 1 / r" using False assms by simp
    then have c2: "2 \<le> c" unfolding c_def by linarith
    have c: "1 / r \<le> of_int c" "of_int c - 1 < 1 / r" unfolding c_def by linarith+
    have n: "0 < n" "int n = c - 1" using c2 by (simp_all add: n_def)
    from floorlog_bounds [of n 2] n(1) have b: "2 ^ (j - 1) \<le> n" "n < 2 ^ j"
      by (simp_all add: j_def)
    have j: "0 < j" using b(2) n(1) by (cases j) simp_all
    have e: "expo r = - int j" using False by (simp add: expo_def n_def j_def c_def)
    have rn: "real n = of_int c - 1" using n(2) by (metis of_int_1 of_int_diff of_int_of_nat_eq)
    have "n + 1 \<le> 2 ^ j" using b(2) by simp
    then have "real (n + 1) \<le> 2 ^ j" by (metis of_nat_le_iff of_nat_numeral of_nat_power)
    then have "real n + 1 \<le> 2 ^ j" by (simp only: of_nat_add of_nat_1)
    then have "1 / r \<le> 2 ^ j" using c(1) rn by linarith
    then have "1 \<le> 2 ^ j * r" using assms by (simp add: pos_divide_le_eq)
    then have lo: "1 / 2 ^ j \<le> r" by (simp add: pos_divide_le_eq mult.commute)
    have "(2::real) ^ (j - 1) \<le> real n" using b(1) by (metis of_nat_le_iff of_nat_numeral of_nat_power)
    then have "2 ^ (j - 1) < 1 / r" using c(2) rn by linarith
    then have "2 ^ (j - 1) * r < 1" using assms by (simp add: pos_less_divide_eq)
    then have hi: "r < 1 / 2 ^ (j - 1)" by (simp add: pos_less_divide_eq mult.commute)
    have eq: "- int j + 1 = - int (j - 1)" using j by simp
    have pj1: "power_int (2::real) (- int j + 1) = 1 / 2 ^ (j - 1)"
      by (simp only: eq power_int_minus_divide power_int_of_nat)
    have pj: "power_int (2::real) (- int j) = 1 / 2 ^ j"
      by (simp only: power_int_minus_divide power_int_of_nat)
    show ?thesis unfolding e pj pj1 by (rule conjI [OF lo hi])
  qed
  then show "power_int 2 (expo r) \<le> r" and "r < power_int 2 (expo r + 1)" by simp_all
qed

lemma expo_eqI:
  assumes "power_int 2 k \<le> r" and "r < power_int 2 (k + 1)"
  shows "expo r = k"
proof -
  have r: "0 < r" using assms(1) zero_less_power_int [of "2::real" k] by linarith
  note b = expo_bounds [OF r]
  have "\<not> expo r + 1 \<le> k"
  proof
    assume "expo r + 1 \<le> k"
    then have "power_int (2::real) (expo r + 1) \<le> power_int 2 k"
      by (intro power_int_increasing) simp_all
    with b(2) assms(1) show False by linarith
  qed
  moreover have "\<not> k + 1 \<le> expo r"
  proof
    assume "k + 1 \<le> expo r"
    then have "power_int (2::real) (k + 1) \<le> power_int 2 (expo r)"
      by (intro power_int_increasing) simp_all
    with b(1) assms(2) show False by linarith
  qed
  ultimately show ?thesis by linarith
qed

lemma expo_mono:
  assumes "0 < x" "x \<le> y"
  shows "expo x \<le> expo y"
proof (rule ccontr)
  assume "\<not> expo x \<le> expo y"
  then have "expo y + 1 \<le> expo x" by simp
  then have "power_int (2::real) (expo y + 1) \<le> power_int 2 (expo x)"
    by (intro power_int_increasing) simp_all
  moreover have "0 < y" using assms by simp
  ultimately show False
    using expo_bounds(1) [OF assms(1)] expo_bounds(2) [of y] assms(2) by linarith
qed

lemma rhe_lower: "of_int \<lfloor>q\<rfloor> \<le> (of_int (round_half_even q) :: real)"
  by (simp add: round_half_even_def Let_def)

lemma rhe_upper: "round_half_even q \<le> \<lfloor>q\<rfloor> + 1"
  by (simp add: round_half_even_def Let_def)

lemma rhe_of_int: "round_half_even (of_int n) = n"
  by (simp add: round_half_even_def Let_def)

lemma rhe_le_int:
  assumes "q \<le> of_int n"
  shows "round_half_even q \<le> n"
proof (cases "q = of_int n")
  case True
  then show ?thesis by (simp add: rhe_of_int)
next
  case False
  with assms have "q < of_int n" by simp
  then have "\<lfloor>q\<rfloor> < n" by (simp add: floor_less_iff)
  with rhe_upper [of q] show ?thesis by linarith
qed

lemma rhe_ge_int:
  assumes "of_int n \<le> q"
  shows "n \<le> round_half_even q"
proof -
  have "n \<le> \<lfloor>q\<rfloor>" using assms by (simp add: le_floor_iff)
  moreover have "\<lfloor>q\<rfloor> \<le> round_half_even q"
    by (simp add: round_half_even_def Let_def)
  ultimately show ?thesis by linarith
qed

lemma rhe_mono:
  assumes "q \<le> q'"
  shows "round_half_even q \<le> round_half_even q'"
proof (cases "\<lfloor>q\<rfloor> = \<lfloor>q'\<rfloor>")
  case True
  with assms have "q - of_int \<lfloor>q\<rfloor> \<le> q' - of_int \<lfloor>q'\<rfloor>" by simp
  with True show ?thesis by (auto simp add: round_half_even_def Let_def)
next
  case False
  with assms have "\<lfloor>q\<rfloor> < \<lfloor>q'\<rfloor>" using floor_mono [of q q'] by linarith
  then have "round_half_even q \<le> \<lfloor>q'\<rfloor>" using rhe_upper [of q] by linarith
  also have "\<dots> \<le> round_half_even q'" by (simp add: round_half_even_def Let_def)
  finally show ?thesis .
qed

lemma ulp_exp_split:
  "power_int (2::real) (ulp_exp r + 53) = power_int 2 (ulp_exp r) * 2 ^ 53"
  "power_int (2::real) (ulp_exp r + 52) = power_int 2 (ulp_exp r) * 2 ^ 52"
  by (simp_all add: power_int_add)

lemma ulp_pos: "0 < power_int (2::real) k"
  by simp

lemma round_mag_nonneg: "0 \<le> round_mag r"
proof (cases "r \<le> 0")
  case True
  then show ?thesis by (simp add: round_mag_def)
next
  case False
  then have "0 \<le> r / power_int 2 (ulp_exp r)" by simp
  then have "(0::int) \<le> round_half_even (r / power_int 2 (ulp_exp r))"
    using rhe_ge_int [of 0] by simp
  with False show ?thesis by (simp add: round_mag_def)
qed

lemma round_mag_upper:
  assumes "0 < r"
  shows "round_mag r \<le> power_int 2 (ulp_exp r + 53)"
proof -
  let ?u = "power_int (2::real) (ulp_exp r)"
  have "expo r + 1 \<le> ulp_exp r + 53" by (simp add: ulp_exp_def)
  then have "power_int (2::real) (expo r + 1) \<le> power_int 2 (ulp_exp r + 53)"
    by (intro power_int_increasing) simp_all
  with expo_bounds(2) [OF assms] have "r \<le> ?u * 2 ^ 53"
    by (simp only: ulp_exp_split)
  then have "r / ?u \<le> 2 ^ 53" by (simp add: pos_divide_le_eq mult.commute)
  then have "r / ?u \<le> of_int (2 ^ 53)" by simp
  then have "round_half_even (r / ?u) \<le> 2 ^ 53" by (rule rhe_le_int)
  then have "of_int (round_half_even (r / ?u)) \<le> (2 ^ 53 :: real)"
    by (metis of_int_le_iff of_int_numeral of_int_power)
  then have "?u * of_int (round_half_even (r / ?u)) \<le> ?u * 2 ^ 53"
    by (intro mult_left_mono) simp_all
  with assms show ?thesis by (simp add: round_mag_def ulp_exp_split)
qed

lemma round_mag_lower:
  assumes "0 < r" and "- 1022 \<le> expo r"
  shows "power_int 2 (ulp_exp r + 52) \<le> round_mag r"
proof -
  let ?u = "power_int (2::real) (ulp_exp r)"
  have e: "ulp_exp r + 52 = expo r" using assms(2) by (simp add: ulp_exp_def)
  from expo_bounds(1) [OF assms(1)] have "?u * 2 ^ 52 \<le> r"
    by (simp only: ulp_exp_split [symmetric] e)
  then have "2 ^ 52 \<le> r / ?u" by (simp add: pos_le_divide_eq mult.commute)
  then have "of_int (2 ^ 52) \<le> r / ?u" by simp
  then have "2 ^ 52 \<le> round_half_even (r / ?u)" by (rule rhe_ge_int)
  then have "(2 ^ 52 :: real) \<le> of_int (round_half_even (r / ?u))"
    by (metis of_int_le_iff of_int_numeral of_int_power)
  then have "?u * 2 ^ 52 \<le> ?u * of_int (round_half_even (r / ?u))"
    by (intro mult_left_mono) simp_all
  with assms show ?thesis by (simp add: round_mag_def ulp_exp_split)
qed

lemma round_mag_mono:
  assumes "x \<le> y"
  shows "round_mag x \<le> round_mag y"
proof (cases "0 < x")
  case False
  then show ?thesis using round_mag_nonneg [of y] by (simp add: round_mag_def)
next
  case True
  with assms have y: "0 < y" by simp
  have le: "ulp_exp x \<le> ulp_exp y"
    using expo_mono [OF True assms] by (simp add: ulp_exp_def)
  show ?thesis
  proof (cases "ulp_exp x = ulp_exp y")
    case True
    let ?u = "power_int (2::real) (ulp_exp y)"
    have "x / ?u \<le> y / ?u" using assms by (simp add: divide_right_mono)
    then have "round_half_even (x / ?u) \<le> round_half_even (y / ?u)" by (rule rhe_mono)
    then have "?u * of_int (round_half_even (x / ?u)) \<le> ?u * of_int (round_half_even (y / ?u))"
      by (intro mult_left_mono) simp_all
    with True \<open>0 < x\<close> y show ?thesis by (simp add: round_mag_def)
  next
    case False
    with le have lt: "ulp_exp x + 1 \<le> ulp_exp y" by simp
    then have "- 1022 \<le> expo y" by (auto simp add: ulp_exp_def max_def split: if_splits)
    from round_mag_lower [OF y this] have "power_int 2 (ulp_exp y + 52) \<le> round_mag y" .
    moreover have "power_int (2::real) (ulp_exp x + 53) \<le> power_int 2 (ulp_exp y + 52)"
      using lt by (intro power_int_increasing) simp_all
    ultimately show ?thesis using round_mag_upper [OF True] by linarith
  qed
qed

lemma round_mag_eval:
  assumes "power_int 2 k \<le> r" and "r < power_int 2 (k + 1)" and "- 1022 \<le> k"
  shows "round_mag r = power_int 2 (k - 52) * of_int (round_half_even (r / power_int 2 (k - 52)))"
proof -
  have "0 < r" using assms(1) ulp_pos [of k] by linarith
  moreover have "ulp_exp r = k - 52"
    using expo_eqI [OF assms(1,2)] assms(3) by (simp add: ulp_exp_def)
  ultimately show ?thesis by (simp add: round_mag_def)
qed




lemma round_mag_pos:
  assumes "power_int 2 (- 1022) \<le> r"
  shows "0 < round_mag r"
proof -
  have r: "0 < r" using assms ulp_pos [of "- 1022"] by linarith
  have "- 1022 \<le> expo r"
  proof (rule ccontr)
    assume "\<not> - 1022 \<le> expo r"
    then have "expo r + 1 \<le> - 1022" by simp
    then have "power_int (2::real) (expo r + 1) \<le> power_int 2 (- 1022)"
      by (intro power_int_increasing) simp_all
    with expo_bounds(2) [OF r] assms show False by linarith
  qed
  from round_mag_lower [OF r this] ulp_pos [of "ulp_exp r + 52"] show ?thesis by linarith
qed

text \<open>The shape of a rounded result, by sign.\<close>

lemma to_double_pos:
  "to_double False r = PosInf \<and> 2 ^ 1024 \<le> round_mag r
   \<or> to_double False r = Fin (round_mag r) \<and> round_mag r < 2 ^ 1024"
  by (simp add: to_double_def Let_def)

lemma to_double_neg:
  "to_double True r = NegInf \<or> to_double True r = NegZero
   \<or> (\<exists>m. m < 0 \<and> to_double True r = Fin m)"
  using round_mag_nonneg [of r] by (auto simp add: to_double_def Let_def)

lemma to_double_mono:
  assumes "x \<le> y"
  shows "\<not> js_gt (to_double False x) (to_double False y)"
  using round_mag_mono [OF assms] to_double_pos [of x] to_double_pos [of y]
  by (auto simp add: js_gt_def)

lemma js_gt_irrefl: "\<not> js_gt x x"
  by (cases x) (simp_all add: js_gt_def)

lemma js_gt_neg_pos:
  "\<not> js_gt (to_double True x) (to_double False y)"
  using to_double_neg [of x] to_double_pos [of y] round_mag_nonneg [of y]
  by (auto simp add: js_gt_def)

lemma is_double_round:
  assumes "is_double x"
  shows "round_mag \<bar>x\<bar> = \<bar>x\<bar>" and "\<bar>x\<bar> < 2 ^ 1024"
  using assms round_mag_nonneg [of "\<bar>x\<bar>"]
  by (auto simp add: is_double_def to_double_def Let_def split: if_splits)

section \<open>Evaluated operations\<close>

text \<open>
  The operators at the numbers used below, each rounded as \<open>round_mag_eval\<close> says.
\<close>

lemma round_mag_small:
  "round_mag 1 = 1"
  "round_mag 2 = 2"
  "round_mag 5 = 5"
  "round_mag 10 = 10"
  "round_mag 15 = 15"
  "round_mag 20 = 20"
  "round_mag 22 = 22"
  "round_mag 25 = 25"
  "round_mag 200 = 200"
  "round_mag 400 = 400"
  "round_mag 600 = 600"
  "round_mag (3 / 2) = 3 / 2"
  "round_mag (50 / 3) = 4691249611844267 / 281474976710656"
  "round_mag (100 / 3) = 4691249611844267 / 140737488355328"
proof -
  show "round_mag 1 = 1"
    using round_mag_eval [where k = "0" and r = "1"]
    by (simp add: round_half_even_def)
  show "round_mag 2 = 2"
    using round_mag_eval [where k = "1" and r = "2"]
    by (simp add: round_half_even_def)
  show "round_mag 5 = 5"
    using round_mag_eval [where k = "2" and r = "5"]
    by (simp add: round_half_even_def)
  show "round_mag 10 = 10"
    using round_mag_eval [where k = "3" and r = "10"]
    by (simp add: round_half_even_def)
  show "round_mag 15 = 15"
    using round_mag_eval [where k = "3" and r = "15"]
    by (simp add: round_half_even_def)
  show "round_mag 20 = 20"
    using round_mag_eval [where k = "4" and r = "20"]
    by (simp add: round_half_even_def)
  show "round_mag 22 = 22"
    using round_mag_eval [where k = "4" and r = "22"]
    by (simp add: round_half_even_def)
  show "round_mag 25 = 25"
    using round_mag_eval [where k = "4" and r = "25"]
    by (simp add: round_half_even_def)
  show "round_mag 200 = 200"
    using round_mag_eval [where k = "7" and r = "200"]
    by (simp add: round_half_even_def)
  show "round_mag 400 = 400"
    using round_mag_eval [where k = "8" and r = "400"]
    by (simp add: round_half_even_def)
  show "round_mag 600 = 600"
    using round_mag_eval [where k = "9" and r = "600"]
    by (simp add: round_half_even_def)
  show "round_mag (3 / 2) = 3 / 2"
    using round_mag_eval [where k = "0" and r = "3 / 2"]
    by (simp add: round_half_even_def)
  show "round_mag (50 / 3) = 4691249611844267 / 281474976710656"
    using round_mag_eval [where k = "4" and r = "50 / 3"]
    by (simp add: round_half_even_def)
  show "round_mag (100 / 3) = 4691249611844267 / 140737488355328"
    using round_mag_eval [where k = "5" and r = "100 / 3"]
    by (simp add: round_half_even_def)
qed

lemma round_mag_more:
  "round_mag 1000 = 1000"
  "round_mag 600 = 600"
  "round_mag 30 = 30"
  "round_mag (6755399441055743 / 2251799813685248) = 6755399441055743 / 2251799813685248"
proof -
  show "round_mag 1000 = 1000"
    using round_mag_eval [where k = "9" and r = "1000"]
    by (simp add: round_half_even_def)
  show "round_mag 600 = 600"
    using round_mag_eval [where k = "9" and r = "600"]
    by (simp add: round_half_even_def)
  show "round_mag 30 = 30"
    using round_mag_eval [where k = "4" and r = "30"]
    by (simp add: round_half_even_def)
  show "round_mag (6755399441055743 / 2251799813685248) = 6755399441055743 / 2251799813685248"
    using round_mag_eval [where k = "1" and r = "6755399441055743 / 2251799813685248"]
    by (simp add: round_half_even_def)
qed

lemma is_double_values:
  "is_double 1000" "is_double 600" "is_double (- 30)"
  "is_double (6755399441055743 / 2251799813685248)"
  by (simp_all add: is_double_def to_double_def round_mag_more)

lemma js_values_ctor:
  "js_div (Fin 1000) (Fin 60) = Fin (4691249611844267 / 281474976710656)"
  "js_div (Fin 300) (Fin 200) = Fin (3 / 2)"
  "js_div (Fin 300) (Fin (3 / 2)) = Fin 200"
  "js_div (Fin 300) (Fin 300) = Fin 1"
  "js_mul (Fin 200) (Fin 2) = Fin 400"
  "js_mul (Fin 300) (Fin 2) = Fin 600"
  "js_sub (Fin 1) (Fin 0) = Fin 1"
  "js_div (Fin 1000) (Fin (- 30)) = Fin (- (4691249611844267 / 140737488355328))"
  "js_sub (Fin 1) (Fin 1) = Fin 0"
  "js_mul (Fin 2) (Fin 1) = Fin 2"
proof -
  have "round_mag (50 / 3) = 4691249611844267 / 281474976710656"
    using round_mag_eval [where k = "4" and r = "50 / 3"]
    by (simp add: round_half_even_def)
  then show "js_div (Fin 1000) (Fin 60) = Fin (4691249611844267 / 281474976710656)"
    by (simp add: js_div_def to_double_def trunc_def)
  have "round_mag (3 / 2) = 3 / 2"
    using round_mag_eval [where k = "0" and r = "3 / 2"]
    by (simp add: round_half_even_def)
  then show "js_div (Fin 300) (Fin 200) = Fin (3 / 2)"
    by (simp add: js_div_def to_double_def trunc_def)
  have "round_mag 200 = 200"
    using round_mag_eval [where k = "7" and r = "200"]
    by (simp add: round_half_even_def)
  then show "js_div (Fin 300) (Fin (3 / 2)) = Fin 200"
    by (simp add: js_div_def to_double_def trunc_def)
  have "round_mag 1 = 1"
    using round_mag_eval [where k = "0" and r = "1"]
    by (simp add: round_half_even_def)
  then show "js_div (Fin 300) (Fin 300) = Fin 1"
    by (simp add: js_div_def to_double_def trunc_def)
  have "round_mag 400 = 400"
    using round_mag_eval [where k = "8" and r = "400"]
    by (simp add: round_half_even_def)
  then show "js_mul (Fin 200) (Fin 2) = Fin 400"
    by (simp add: js_mul_def to_double_def trunc_def)
  have "round_mag 600 = 600"
    using round_mag_eval [where k = "9" and r = "600"]
    by (simp add: round_half_even_def)
  then show "js_mul (Fin 300) (Fin 2) = Fin 600"
    by (simp add: js_mul_def to_double_def trunc_def)
  have "round_mag 1 = 1"
    using round_mag_eval [where k = "0" and r = "1"]
    by (simp add: round_half_even_def)
  then show "js_sub (Fin 1) (Fin 0) = Fin 1"
    by (simp add: js_sub_def to_double_def trunc_def)
  have "round_mag (100 / 3) = 4691249611844267 / 140737488355328"
    using round_mag_eval [where k = "5" and r = "100 / 3"]
    by (simp add: round_half_even_def)
  then show "js_div (Fin 1000) (Fin (- 30)) = Fin (- (4691249611844267 / 140737488355328))"
    by (simp add: js_div_def to_double_def trunc_def)
  show "js_sub (Fin 1) (Fin 1) = Fin 0"
    by (simp add: js_sub_def to_double_def trunc_def round_mag_def)
  have "round_mag 2 = 2"
    using round_mag_eval [where k = "1" and r = "2"]
    by (simp add: round_half_even_def)
  then show "js_mul (Fin 2) (Fin 1) = Fin 2"
    by (simp add: js_mul_def to_double_def trunc_def)
qed

lemma js_values_ctor_rem:
  "js_rem (Fin 1) (Fin (- (4691249611844267 / 140737488355328))) = Fin 1"
proof -
  have "round_mag 1 = 1"
    using round_mag_eval [where k = "0" and r = "1"]
    by (simp add: round_half_even_def)
  then show "js_rem (Fin 1) (Fin (- (4691249611844267 / 140737488355328))) = Fin 1"
    by (simp add: js_rem_def to_double_def trunc_def)
qed

lemma js_values_fit:
  "js_div (Fin 1000) (Fin 333) = Fin (3381080801329201 / 1125899906842624)"
  "js_div (Fin 300) (Fin 200) = Fin (3 / 2)"
  "js_mul (Fin 333) (Fin (3 / 2)) = Fin (999 / 2)"
  "js_div (Fin 499) (Fin 300) = Fin (7490987380192925 / 4503599627370496)"
  "js_div (Fin 333) (Fin 200) = Fin (1874623344892969 / 1125899906842624)"
  "js_div (Fin 1000) (Fin 300) = Fin (7505999378950827 / 2251799813685248)"
  "js_mul (Fin 499) (Fin 2) = Fin 998"
  "js_mul (Fin 333) (Fin 2) = Fin 666"
  "js_div (Fin 7) (Fin (6755399441055743 / 2251799813685248)) = Fin (5254199565265579 / 2251799813685248)"
  "js_div (Fin 7) (Fin 3) = Fin (5254199565265579 / 2251799813685248)"
  "js_div (Fin 7) (Fin (5254199565265579 / 2251799813685248)) = Fin 3"
  "js_div (Fin 7) (Fin 7) = Fin 1"
  "js_mul (Fin 7) (Fin 2) = Fin 14"
  "js_mul (Fin 3) (Fin 2) = Fin 6"
  "js_div (Fin 220) (Fin 100) = Fin (2476979795053773 / 1125899906842624)"
  "js_div (Fin 220) (Fin (2476979795053773 / 1125899906842624)) = Fin (7036874417766399 / 70368744177664)"
  "js_div (Fin 220) (Fin 220) = Fin 1"
  "js_mul (Fin 99) (Fin 2) = Fin 198"
  "js_mul (Fin 220) (Fin 2) = Fin 440"
  "js_div (Fin (- 100)) (Fin 50) = Fin (- 2)"
  "js_div (Fin (- 100)) (Fin (3 / 2)) = Fin (- (4691249611844267 / 70368744177664))"
  "js_div (Fin (- 100)) (Fin 300) = Fin (- (6004799503160661 / 18014398509481984))"
  "js_mul (Fin (- 67)) (Fin 2) = Fin (- 134)"
  "js_mul (Fin (- 100)) (Fin 2) = Fin (- 200)"
  "js_div (Fin 100) (Fin (3 / 2)) = Fin (4691249611844267 / 70368744177664)"
  "js_div (Fin 100) (Fin 300) = Fin (6004799503160661 / 18014398509481984)"
  "js_mul (Fin 66) (Fin 2) = Fin 132"
  "js_mul (Fin 100) (Fin 2) = Fin 200"
proof -
  have "round_mag (1000 / 333) = 3381080801329201 / 1125899906842624"
    using round_mag_eval [where k = "1" and r = "1000 / 333"]
    by (simp add: round_half_even_def)
  then show "js_div (Fin 1000) (Fin 333) = Fin (3381080801329201 / 1125899906842624)"
    by (simp add: js_div_def to_double_def trunc_def)
  have "round_mag (3 / 2) = 3 / 2"
    using round_mag_eval [where k = "0" and r = "3 / 2"]
    by (simp add: round_half_even_def)
  then show "js_div (Fin 300) (Fin 200) = Fin (3 / 2)"
    by (simp add: js_div_def to_double_def trunc_def)
  have "round_mag (999 / 2) = 999 / 2"
    using round_mag_eval [where k = "8" and r = "999 / 2"]
    by (simp add: round_half_even_def)
  then show "js_mul (Fin 333) (Fin (3 / 2)) = Fin (999 / 2)"
    by (simp add: js_mul_def to_double_def trunc_def)
  have "round_mag (499 / 300) = 7490987380192925 / 4503599627370496"
    using round_mag_eval [where k = "0" and r = "499 / 300"]
    by (simp add: round_half_even_def)
  then show "js_div (Fin 499) (Fin 300) = Fin (7490987380192925 / 4503599627370496)"
    by (simp add: js_div_def to_double_def trunc_def)
  have "round_mag (333 / 200) = 1874623344892969 / 1125899906842624"
    using round_mag_eval [where k = "0" and r = "333 / 200"]
    by (simp add: round_half_even_def)
  then show "js_div (Fin 333) (Fin 200) = Fin (1874623344892969 / 1125899906842624)"
    by (simp add: js_div_def to_double_def trunc_def)
  have "round_mag (10 / 3) = 7505999378950827 / 2251799813685248"
    using round_mag_eval [where k = "1" and r = "10 / 3"]
    by (simp add: round_half_even_def)
  then show "js_div (Fin 1000) (Fin 300) = Fin (7505999378950827 / 2251799813685248)"
    by (simp add: js_div_def to_double_def trunc_def)
  have "round_mag 998 = 998"
    using round_mag_eval [where k = "9" and r = "998"]
    by (simp add: round_half_even_def)
  then show "js_mul (Fin 499) (Fin 2) = Fin 998"
    by (simp add: js_mul_def to_double_def trunc_def)
  have "round_mag 666 = 666"
    using round_mag_eval [where k = "9" and r = "666"]
    by (simp add: round_half_even_def)
  then show "js_mul (Fin 333) (Fin 2) = Fin 666"
    by (simp add: js_mul_def to_double_def trunc_def)
  have "round_mag (15762598695796736 / 6755399441055743) = 5254199565265579 / 2251799813685248"
    using round_mag_eval [where k = "1" and r = "15762598695796736 / 6755399441055743"]
    by (simp add: round_half_even_def)
  then show "js_div (Fin 7) (Fin (6755399441055743 / 2251799813685248)) = Fin (5254199565265579 / 2251799813685248)"
    by (simp add: js_div_def to_double_def trunc_def)
  have "round_mag (7 / 3) = 5254199565265579 / 2251799813685248"
    using round_mag_eval [where k = "1" and r = "7 / 3"]
    by (simp add: round_half_even_def)
  then show "js_div (Fin 7) (Fin 3) = Fin (5254199565265579 / 2251799813685248)"
    by (simp add: js_div_def to_double_def trunc_def)
  have "round_mag (15762598695796736 / 5254199565265579) = 3"
    using round_mag_eval [where k = "1" and r = "15762598695796736 / 5254199565265579"]
    by (simp add: round_half_even_def)
  then show "js_div (Fin 7) (Fin (5254199565265579 / 2251799813685248)) = Fin 3"
    by (simp add: js_div_def to_double_def trunc_def)
  have "round_mag 1 = 1"
    using round_mag_eval [where k = "0" and r = "1"]
    by (simp add: round_half_even_def)
  then show "js_div (Fin 7) (Fin 7) = Fin 1"
    by (simp add: js_div_def to_double_def trunc_def)
  have "round_mag 14 = 14"
    using round_mag_eval [where k = "3" and r = "14"]
    by (simp add: round_half_even_def)
  then show "js_mul (Fin 7) (Fin 2) = Fin 14"
    by (simp add: js_mul_def to_double_def trunc_def)
  have "round_mag 6 = 6"
    using round_mag_eval [where k = "2" and r = "6"]
    by (simp add: round_half_even_def)
  then show "js_mul (Fin 3) (Fin 2) = Fin 6"
    by (simp add: js_mul_def to_double_def trunc_def)
  have "round_mag (11 / 5) = 2476979795053773 / 1125899906842624"
    using round_mag_eval [where k = "1" and r = "11 / 5"]
    by (simp add: round_half_even_def)
  then show "js_div (Fin 220) (Fin 100) = Fin (2476979795053773 / 1125899906842624)"
    by (simp add: js_div_def to_double_def trunc_def)
  have "round_mag (247697979505377280 / 2476979795053773) = 7036874417766399 / 70368744177664"
    using round_mag_eval [where k = "6" and r = "247697979505377280 / 2476979795053773"]
    by (simp add: round_half_even_def)
  then show "js_div (Fin 220) (Fin (2476979795053773 / 1125899906842624)) = Fin (7036874417766399 / 70368744177664)"
    by (simp add: js_div_def to_double_def trunc_def)
  have "round_mag 1 = 1"
    using round_mag_eval [where k = "0" and r = "1"]
    by (simp add: round_half_even_def)
  then show "js_div (Fin 220) (Fin 220) = Fin 1"
    by (simp add: js_div_def to_double_def trunc_def)
  have "round_mag 198 = 198"
    using round_mag_eval [where k = "7" and r = "198"]
    by (simp add: round_half_even_def)
  then show "js_mul (Fin 99) (Fin 2) = Fin 198"
    by (simp add: js_mul_def to_double_def trunc_def)
  have "round_mag 440 = 440"
    using round_mag_eval [where k = "8" and r = "440"]
    by (simp add: round_half_even_def)
  then show "js_mul (Fin 220) (Fin 2) = Fin 440"
    by (simp add: js_mul_def to_double_def trunc_def)
  have "round_mag 2 = 2"
    using round_mag_eval [where k = "1" and r = "2"]
    by (simp add: round_half_even_def)
  then show "js_div (Fin (- 100)) (Fin 50) = Fin (- 2)"
    by (simp add: js_div_def to_double_def trunc_def)
  have "round_mag (200 / 3) = 4691249611844267 / 70368744177664"
    using round_mag_eval [where k = "6" and r = "200 / 3"]
    by (simp add: round_half_even_def)
  then show "js_div (Fin (- 100)) (Fin (3 / 2)) = Fin (- (4691249611844267 / 70368744177664))"
    by (simp add: js_div_def to_double_def trunc_def)
  have "round_mag (1 / 3) = 6004799503160661 / 18014398509481984"
    using round_mag_eval [where k = "-2" and r = "1 / 3"]
    by (simp add: round_half_even_def)
  then show "js_div (Fin (- 100)) (Fin 300) = Fin (- (6004799503160661 / 18014398509481984))"
    by (simp add: js_div_def to_double_def trunc_def)
  have "round_mag 134 = 134"
    using round_mag_eval [where k = "7" and r = "134"]
    by (simp add: round_half_even_def)
  then show "js_mul (Fin (- 67)) (Fin 2) = Fin (- 134)"
    by (simp add: js_mul_def to_double_def trunc_def)
  have "round_mag 200 = 200"
    using round_mag_eval [where k = "7" and r = "200"]
    by (simp add: round_half_even_def)
  then show "js_mul (Fin (- 100)) (Fin 2) = Fin (- 200)"
    by (simp add: js_mul_def to_double_def trunc_def)
  have "round_mag (200 / 3) = 4691249611844267 / 70368744177664"
    using round_mag_eval [where k = "6" and r = "200 / 3"]
    by (simp add: round_half_even_def)
  then show "js_div (Fin 100) (Fin (3 / 2)) = Fin (4691249611844267 / 70368744177664)"
    by (simp add: js_div_def to_double_def trunc_def)
  have "round_mag (1 / 3) = 6004799503160661 / 18014398509481984"
    using round_mag_eval [where k = "-2" and r = "1 / 3"]
    by (simp add: round_half_even_def)
  then show "js_div (Fin 100) (Fin 300) = Fin (6004799503160661 / 18014398509481984)"
    by (simp add: js_div_def to_double_def trunc_def)
  have "round_mag 132 = 132"
    using round_mag_eval [where k = "7" and r = "132"]
    by (simp add: round_half_even_def)
  then show "js_mul (Fin 66) (Fin 2) = Fin 132"
    by (simp add: js_mul_def to_double_def trunc_def)
  have "round_mag 200 = 200"
    using round_mag_eval [where k = "7" and r = "200"]
    by (simp add: round_half_even_def)
  then show "js_mul (Fin 100) (Fin 2) = Fin 200"
    by (simp add: js_mul_def to_double_def trunc_def)
qed


lemma js_values_rem:
  "js_sub (Fin 50) (Fin 0) = Fin 50"
  "js_rem (Fin 50) (Fin (4691249611844267 / 281474976710656)) = Fin (2345624805922133 / 140737488355328)"
  "js_sub (Fin 50) (Fin (2345624805922133 / 140737488355328)) = Fin (4691249611844267 / 140737488355328)"
proof -
  have "round_mag 50 = 50"
    using round_mag_eval [where k = "5" and r = "50"]
    by (simp add: round_half_even_def)
  then show "js_sub (Fin 50) (Fin 0) = Fin 50"
    by (simp add: js_sub_def to_double_def trunc_def)
  have "round_mag (2345624805922133 / 140737488355328) = 2345624805922133 / 140737488355328"
    using round_mag_eval [where k = "4" and r = "2345624805922133 / 140737488355328"]
    by (simp add: round_half_even_def)
  then show "js_rem (Fin 50) (Fin (4691249611844267 / 281474976710656)) = Fin (2345624805922133 / 140737488355328)"
    by (simp add: js_rem_def to_double_def trunc_def)
  have "round_mag (4691249611844267 / 140737488355328) = 4691249611844267 / 140737488355328"
    using round_mag_eval [where k = "5" and r = "4691249611844267 / 140737488355328"]
    by (simp add: round_half_even_def)
  then show "js_sub (Fin 50) (Fin (2345624805922133 / 140737488355328)) = Fin (4691249611844267 / 140737488355328)"
    by (simp add: js_sub_def to_double_def trunc_def)
qed

lemma js_div_by_neg_zero: "js_div (Fin 100) NegZero = NegInf"
  by (simp add: js_div_def)

section \<open>The frame scheduler\<close>

text \<open>
  C1. Scheduler skip policy: from a state whose \<open>lastDraw\<close> and \<open>lastUpdate\<close> are both
  \<open>t0\<close>, with an interval of 16.67 ms, the four ticks at \<open>t0 + 5\<close>, \<open>t0 + 10\<close>,
  \<open>t0 + 15\<close> and \<open>t0 + 20\<close> call \<open>update\<close> once each and \<open>draw\<close> exactly once, on
  the fourth tick. This holds in \<open>index.js\<close> whatever the later clock readings of each
  tick are, and in \<open>modules/ag2d.js\<close>.
\<close>

theorem skip_policy:
  "map (\<lambda>ev. (length (filter is_update ev), length (filter is_draw ev)))
     (snd (run w (s\<lparr>lastUpdate := Fin t0, lastDraw := Fin t0, interval := Fin 16.67\<rparr>)
        [\<lparr>now_timeNow = t0 + 5, now_lastUpdate = u1, now_lastDraw = v1\<rparr>,
         \<lparr>now_timeNow = t0 + 10, now_lastUpdate = u2, now_lastDraw = v2\<rparr>,
         \<lparr>now_timeNow = t0 + 15, now_lastUpdate = u3, now_lastDraw = v3\<rparr>,
         \<lparr>now_timeNow = t0 + 20, now_lastUpdate = u4, now_lastDraw = v4\<rparr>]))
     = [(1, 0), (1, 0), (1, 0), (1, 1)]
   \<and> snd (run_module w (m\<lparr>m_lastDraw := Fin t0, m_interval := Fin 16.67\<rparr>)
        [t0 + 5, t0 + 10, t0 + 15, t0 + 20])
     = [[Update (Fin 5)], [Update (Fin 10)], [Update (Fin 15)],
        [Update (Fin 20), Draw (devicePixelRatio w)]]"
  by (simp add: renderLoop_def renderLoop_module_def Let_def update_def update_module_def
      draw_def draw_module_def js_sub_def js_gt_def to_double_def round_mag_small)

text \<open>
  C5. Draw-trigger strictness: on a tick whose \<open>drawDelta\<close> equals the interval exactly,
  \<open>draw\<close> is not called and \<open>lastDraw\<close> keeps its value; the tick only updates. The
  comparison is a strict greater-than in both files.
\<close>

theorem draw_trigger_strict:
  "(js_sub (Fin (now_timeNow tk)) (lastDraw s) = interval s \<longrightarrow>
      lastDraw (fst (renderLoop w s tk)) = lastDraw s \<and>
      snd (renderLoop w s tk) = [Update (js_sub (Fin (now_timeNow tk)) (lastUpdate s))]) \<and>
   (js_sub (Fin now) (m_lastDraw m) = m_interval m \<longrightarrow>
      renderLoop_module w m now = (m, [Update (m_interval m)]))"
  by (simp add: renderLoop_def renderLoop_module_def Let_def js_gt_irrefl update_def
      update_module_def)

theorem draw_trigger_strict_witness:
  "js_sub (Fin (now_timeNow \<lparr>now_timeNow = 20, now_lastUpdate = 21, now_lastDraw = 22\<rparr>))
     (lastDraw sample_engine) = interval sample_engine
   \<and> lastDraw (fst (renderLoop sample_host sample_engine
        \<lparr>now_timeNow = 20, now_lastUpdate = 21, now_lastDraw = 22\<rparr>)) = Fin 0
   \<and> snd (renderLoop sample_host sample_engine
        \<lparr>now_timeNow = 20, now_lastUpdate = 21, now_lastDraw = 22\<rparr>) = [Update (Fin 20)]
   \<and> js_sub (Fin 20) (m_lastDraw sample_module) = m_interval sample_module
   \<and> renderLoop_module sample_host sample_module 20 = (sample_module, [Update (Fin 20)])"
  using draw_trigger_strict [where tk = "\<lparr>now_timeNow = 20, now_lastUpdate = 21, now_lastDraw = 22\<rparr>"
      and s = sample_engine and w = sample_host and now = 20 and m = sample_module]
  by (simp add: sample_engine_def sample_module_def js_sub_def to_double_def round_mag_small)

text \<open>
  Drift correction in \<open>modules/ag2d.js\<close>: the new \<open>lastDraw\<close> is the tick's own
  \<open>timeNow\<close> less the remainder.
\<close>

lemma renderLoop_module_drift:
  "js_gt (js_sub (Fin now) (m_lastDraw m)) (m_interval m) \<Longrightarrow>
   m_lastDraw (fst (renderLoop_module w m now)) =
     js_sub (Fin now) (js_rem (js_sub (Fin now) (m_lastDraw m)) (m_interval m))"
  by (simp add: renderLoop_module_def Let_def)

text \<open>
  At 60 frames per second the interval is the double 16.666666666666668, and a tick at
  50 ms after the last draw has the remainder 16.666666666666664 and stores
  33.333333333333336.
\<close>

lemma remainder_at_60_fps:
  "js_rem (Fin 50) (js_div (Fin 1000) (Fin 60)) = Fin (2345624805922133 / 140737488355328)
   \<and> m_lastDraw (fst (renderLoop_module sample_host
         (sample_module\<lparr>m_interval := js_div (Fin 1000) (Fin 60)\<rparr>) 50))
       = Fin (4691249611844267 / 140737488355328)"
  by (simp add: renderLoop_module_def sample_module_def Let_def js_gt_def js_values_ctor
      js_values_rem)

text \<open>
  In \<open>index.js\<close> the remainder is subtracted from a fresh reading of the clock, taken
  after \<open>update\<close> and \<open>draw\<close> have run.
\<close>

lemma renderLoop_same_reading:
  "js_gt (js_sub (Fin (now_timeNow tk)) (lastDraw s)) (interval s) \<Longrightarrow>
   lastDraw (fst (renderLoop w s tk)) =
     js_sub (Fin (now_lastDraw tk)) (js_rem (js_sub (Fin (now_timeNow tk)) (lastDraw s)) (interval s))"
  by (simp add: renderLoop_def Let_def)

lemma not_multiple: "Fin 22 \<noteq> Fin (0 + real_of_int k * 20)"
proof
  assume "Fin 22 = Fin (0 + real_of_int k * 20)"
  then have "real_of_int (k * 20) = real_of_int 22" by simp
  then have "k * 20 = 22" by (simp only: of_int_eq_iff)
  then show False by presburger
qed

text \<open>
  C2. Drift correction: after a draw, \<open>lastDraw\<close> is to be the tick's own timestamp less
  \<open>drawDelta mod interval\<close>, so that it only moves by whole multiples of the interval.
  \<open>index.js\<close> misses this at a tick where the clock moves on between the readings:
  with \<open>lastDraw = 0\<close>, an interval of 20 ms, \<open>timeNow = 25\<close> and the clock at 27
  when \<open>lastDraw\<close> is assigned, it stores 22, where the tick's own timestamp less the
  remainder is 20, the value \<open>modules/ag2d.js\<close> stores; 22 is no multiple of the
  interval.
\<close>

theorem drift_later_clock:
  "lastDraw sample_engine = Fin 0 \<and> interval sample_engine = Fin 20
   \<and> js_gt (js_sub (Fin 25) (lastDraw sample_engine)) (interval sample_engine)
   \<and> lastDraw (fst (renderLoop sample_host sample_engine
        \<lparr>now_timeNow = 25, now_lastUpdate = 26, now_lastDraw = 27\<rparr>)) = Fin 22
   \<and> js_sub (Fin 25) (js_rem (js_sub (Fin 25) (lastDraw sample_engine)) (interval sample_engine))
       = Fin 20
   \<and> (\<forall>k::int. lastDraw (fst (renderLoop sample_host sample_engine
        \<lparr>now_timeNow = 25, now_lastUpdate = 26, now_lastDraw = 27\<rparr>))
          \<noteq> Fin (0 + real_of_int k * 20))
   \<and> m_lastDraw (fst (renderLoop_module sample_host sample_module 25)) = Fin 20"
  using not_multiple
  by (simp add: renderLoop_def renderLoop_module_def sample_engine_def sample_module_def Let_def
      trunc_def js_sub_def js_rem_def js_gt_def to_double_def round_mag_small)

section \<open>The viewport fit\<close>



lemma js_gt_PosInf: "\<not> js_gt x PosInf"
  by (simp add: js_gt_def)




text \<open>
  C4. Viewport fit algorithm: \<open>resizeCanvas\<close> computes what the specification's
  algorithm computes: the branch on the two ratios, the floored dimension, the scale
  \<open>fitWidth / logicalWidth\<close>, the canvas attributes rounded from the fit times the
  pixel density, and the CSS size equal to the fit. This holds for all arguments, the
  positive ones among them.
\<close>

theorem viewport_fit_algorithm:
  "let s1 = resizeCanvas w s width height;
       t = viewport_fit_spec (d_width (size_wh s)) (d_height (size_wh s)) width height
             (devicePixelRatio w)
   in ratio s1 = Some (scale t)
    \<and> attr_width (canvas s1) = canvasPixelWidth t
    \<and> attr_height (canvas s1) = canvasPixelHeight t
    \<and> style_width (canvas s1) = Px (cssWidth t)
    \<and> style_height (canvas s1) = Px (cssHeight t)"
  by (simp add: resizeCanvas_def viewport_fit_spec_def Let_def)

text \<open>
  An engine of 220 by 100 fitted to 220 by 100: \<open>220 / (220 / 100)\<close> is the double next
  below 100, so the CSS height is 99 and the height attribute 198.
\<close>

lemma viewport_fit_example:
  "canvas (resizeCanvas sample_host
     (sample_engine\<lparr>size_wh := \<lparr>d_height = Fin 100, d_width = Fin 220\<rparr>\<rparr>) (Fin 220) (Fin 100)) =
     \<lparr>attr_height = Fin 198, attr_width = Fin 440,
      style_height = Px (Fin 99), style_width = Px (Fin 220)\<rparr>"
  by (simp add: resizeCanvas_def sample_engine_def sample_host_def sample_canvas_def Let_def
      js_gt_def js_values_fit)

lemma js_div_neg_num:
  assumes "is_neg x" and "0 < b"
  shows "\<not> js_gt (js_div x (Fin b)) (Fin 0)"
proof (cases x)
  case (Fin a)
  with assms have "js_div x (Fin b) = to_double True (\<bar>a\<bar> / b)" by (simp add: js_div_def)
  then show ?thesis using to_double_neg [of "\<bar>a\<bar> / b"] by (auto simp add: js_gt_def)
next
  case NegZero
  with assms show ?thesis by (simp add: js_div_def to_double_def round_mag_def js_gt_def)
qed (use assms in \<open>simp_all add: js_div_def js_gt_def\<close>)

lemma js_div_zero_num:
  assumes "is_zero x" and "0 < b"
  shows "\<not> js_gt (js_div x (Fin b)) (Fin 0)"
  using assms by (cases x) (simp_all add: js_div_def to_double_def round_mag_def js_gt_def)

lemma is_neg_to_double: "is_neg (to_double True r)"
  using to_double_neg [of r] by auto

lemma is_neg_js_floor: "is_neg x \<Longrightarrow> is_neg (js_floor x)"
  by (cases x) (simp_all add: floor_less_iff)

lemma quotient_not_wider:
  assumes "is_finite W" "is_finite H" and "is_neg W \<noteq> is_neg H \<or> is_zero W" and "0 \<le> r"
  shows "\<not> js_gt (js_div W H) (to_double False r)"
proof (cases "is_zero H")
  case True
  with assms show ?thesis
    by (cases W; cases H) (auto simp add: js_div_def js_gt_def)
next
  case False
  with assms(1,2) have q: "js_div W H = to_double (is_neg W \<noteq> is_neg H) (mag W / mag H)"
    by (cases W; cases H) (simp_all add: js_div_def)
  show ?thesis
  proof (cases "is_neg W \<noteq> is_neg H")
    case True
    then show ?thesis using js_gt_neg_pos [of "mag W / mag H" r] by (simp add: q)
  next
    case False
    with assms(3) have "is_zero W" by simp
    with assms(1) have "mag W = 0" by (cases W) simp_all
    moreover have "\<not> js_gt (to_double False 0) (to_double False r)"
      using assms(4) by (rule to_double_mono)
    ultimately show ?thesis using False by (simp add: q)
  qed
qed

text \<open>
  C7 (as amended). A zero or negative container width or height raises nothing:
  \<open>resizeCanvas\<close> has no check and no \<open>throw\<close>, and for any finite width and height
  it overwrites the ratio, the canvas attributes, the CSS size and the bounds with the
  fit of the numbers it is given. When the signs of width and height differ, or the
  width is a zero, the width is kept as given; when the width is negative or a zero, the
  stored ratio is not positive.
\<close>

theorem nonpositive_container_overwrites:
  fixes lw lh :: real
  assumes pos: "0 < lw" "0 < lh" and fin: "is_finite W" "is_finite H"
  shows "let s1 = resizeCanvas w (s\<lparr>size_wh := \<lparr>d_height = Fin lh, d_width = Fin lw\<rparr>\<rparr>) W H;
             logicalRatio = js_div (Fin lw) (Fin lh);
             wider = js_gt (js_div W H) logicalRatio;
             fw = (if wider then js_floor (js_mul H logicalRatio) else W);
             fh = (if wider then H else js_floor (js_div W logicalRatio))
         in ratio s1 = Some (js_div fw (Fin lw))
          \<and> style_width (canvas s1) = Px fw
          \<and> style_height (canvas s1) = Px fh
          \<and> attr_width (canvas s1) = js_round (js_mul fw (devicePixelRatio w))
          \<and> attr_height (canvas s1) = js_round (js_mul fh (devicePixelRatio w))
          \<and> canvasBounds s1 = Some (getBoundingClientRect w (canvas s1))
          \<and> (is_neg W \<noteq> is_neg H \<or> is_zero W \<longrightarrow> \<not> wider)
          \<and> (is_neg W \<or> is_zero W \<longrightarrow> \<not> js_gt (js_div fw (Fin lw)) (Fin 0))"
proof -
  define d where "d = js_div (Fin lw) (Fin lh)"
  define wider where "wider = js_gt (js_div W H) d"
  define fw where "fw = (if wider then js_floor (js_mul H d) else W)"
  have d: "d = to_double False (lw / lh)" using pos by (simp add: d_def js_div_def)
  have nw: "\<not> wider" if "is_neg W \<noteq> is_neg H \<or> is_zero W"
    unfolding wider_def d using quotient_not_wider [OF fin that] pos by simp
  have np: "\<not> js_gt (js_div fw (Fin lw)) (Fin 0)" if w: "is_neg W \<or> is_zero W"
  proof (cases wider)
    case False
    then have "fw = W" by (simp add: fw_def)
    then show ?thesis
      using w js_div_neg_num [OF _ pos(1), of W] js_div_zero_num [OF _ pos(1), of W] by auto
  next
    case True
    with nw have same: "is_neg W = is_neg H" and nz: "\<not> is_zero W" by auto
    with w have hneg: "is_neg H" by simp
    from True have "d \<noteq> PosInf" using js_gt_PosInf [of "js_div W H"] by (auto simp add: wider_def)
    then have dfin: "d = Fin (round_mag (lw / lh))"
      using to_double_pos [of "lw / lh"] by (auto simp add: d)
    have "js_mul H d = to_double True (mag H * round_mag (lw / lh))"
      using fin(2) hneg round_mag_nonneg [of "lw / lh"]
      by (cases H) (simp_all add: js_mul_def dfin)
    then have "is_neg (js_floor (js_mul H d))"
      using is_neg_to_double is_neg_js_floor by simp
    with True show ?thesis using js_div_neg_num [OF _ pos(1)] by (simp add: fw_def)
  qed
  show ?thesis
    unfolding Let_def d_def [symmetric] wider_def [symmetric]
    using nw np
    by (simp add: resizeCanvas_def Let_def d_def [symmetric] wider_def [symmetric] fw_def)
qed

theorem nonpositive_container_overwrites_witness:
  "(0::real) < 300 \<and> (0::real) < 200 \<and> is_finite (Fin (- 100)) \<and> is_finite (Fin 50)
   \<and> is_neg (Fin (- 100)) \<and> \<not> is_neg (Fin 50)
   \<and> ratio (resizeCanvas sample_host
         (sample_engine\<lparr>size_wh := \<lparr>d_height = Fin 200, d_width = Fin 300\<rparr>\<rparr>)
         (Fin (- 100)) (Fin 50)) = Some (js_div (Fin (- 100)) (Fin 300))
   \<and> \<not> js_gt (js_div (Fin (- 100)) (Fin 300)) (Fin 0)
   \<and> style_width (canvas (resizeCanvas sample_host
         (sample_engine\<lparr>size_wh := \<lparr>d_height = Fin 200, d_width = Fin 300\<rparr>\<rparr>)
         (Fin (- 100)) (Fin 50))) = Px (Fin (- 100))
   \<and> style_height (canvas (resizeCanvas sample_host
         (sample_engine\<lparr>size_wh := \<lparr>d_height = Fin 200, d_width = Fin 300\<rparr>\<rparr>)
         (Fin (- 100)) (Fin 50))) = Px (Fin (- 67))
   \<and> is_finite (Fin 100) \<and> is_finite NegZero
   \<and> \<not> is_neg (Fin 100) \<and> is_neg NegZero
   \<and> ratio (resizeCanvas sample_host
         (sample_engine\<lparr>size_wh := \<lparr>d_height = Fin 200, d_width = Fin 300\<rparr>\<rparr>)
         (Fin 100) NegZero) = Some (js_div (Fin 100) (Fin 300))
   \<and> style_width (canvas (resizeCanvas sample_host
         (sample_engine\<lparr>size_wh := \<lparr>d_height = Fin 200, d_width = Fin 300\<rparr>\<rparr>)
         (Fin 100) NegZero)) = Px (Fin 100)
   \<and> style_height (canvas (resizeCanvas sample_host
         (sample_engine\<lparr>size_wh := \<lparr>d_height = Fin 200, d_width = Fin 300\<rparr>\<rparr>)
         (Fin 100) NegZero)) = Px (Fin 66)"
  using nonpositive_container_overwrites [where lw = 300 and lh = 200 and W = "Fin (- 100)"
      and H = "Fin 50" and w = sample_host and s = sample_engine]
    nonpositive_container_overwrites [where lw = 300 and lh = 200 and W = "Fin 100"
      and H = NegZero and w = sample_host and s = sample_engine]
  by (simp add: Let_def js_gt_def js_values_fit js_div_by_neg_zero)

text \<open>
  The previous transform is not retained: a resize to \<open>-100\<close> by \<open>50\<close> replaces the
  ratio 1 by the double nearest to \<open>-1/3\<close> and gives the canvas negative dimensions.
\<close>

theorem invalid_viewport_counterexample:
  "ratio sample_engine = Some (Fin 1)
   \<and> ratio (resizeCanvas sample_host sample_engine (Fin (- 100)) (Fin 50))
       = Some (Fin (- (6004799503160661 / 18014398509481984)))
   \<and> canvas (resizeCanvas sample_host sample_engine (Fin (- 100)) (Fin 50)) =
       \<lparr>attr_height = Fin (- 134), attr_width = Fin (- 200),
        style_height = Px (Fin (- 67)), style_width = Px (Fin (- 100))\<rparr>
   \<and> canvas (resizeCanvas sample_host sample_engine (Fin (- 100)) (Fin 50)) \<noteq> canvas sample_engine"
  by (simp add: resizeCanvas_def sample_engine_def sample_host_def sample_canvas_def Let_def
      js_gt_def js_values_fit)

text \<open>
  C8. Idempotent fit: with the same logical size and pixel density, a second call of
  \<open>resizeCanvas\<close> with the same width and height leaves the engine exactly as the first
  call left it: the same ratio, canvas attributes, CSS size and bounds. The method reads
  nothing that it writes, so the ratio and the canvas are the same even when the page
  layout behind \<open>getBoundingClientRect\<close> has changed between the calls.
\<close>

theorem fit_idempotent:
  "resizeCanvas w (resizeCanvas w s width height) width height = resizeCanvas w s width height
   \<and> ratio (resizeCanvas (w\<lparr>getBoundingClientRect := g\<rparr>) (resizeCanvas w s width height)
        width height) = ratio (resizeCanvas w s width height)
   \<and> canvas (resizeCanvas (w\<lparr>getBoundingClientRect := g\<rparr>) (resizeCanvas w s width height)
        width height) = canvas (resizeCanvas w s width height)"
  by (simp add: resizeCanvas_def Let_def)

section \<open>Construction\<close>

text \<open>
  Neither \<open>init\<close> changes the frame rate or the interval.
\<close>

lemma init_keeps_fps:
  "fps (fst (init w s oo tk)) = fps s" "interval (fst (init w s oo tk)) = interval s"
  by (simp_all add: init_def setUpCanvas_def renderLoop_def resizeCanvas_def Let_def split_beta)

lemma init_module_keeps_fps:
  "m_fps (fst (init_module w s now)) = m_fps s"
  "m_interval (fst (init_module w s now)) = m_interval s"
  by (simp_all add: init_module_def renderLoop_module_def resizeCanvas_module_def Let_def split_beta)

text \<open>
  C6 (as amended). An \<open>fps\<close> option of 0 or a negative number raises no error at
  construction, in either file: the constructor returns an engine, with 0 replaced by 60
  and a negative value kept.
\<close>

theorem nonpositive_fps_accepted:
  "x \<le> 0 \<Longrightarrow>
   \<not> isl (AG2D w cv (with_fps oo (Fin x)) nowUpdate nowDraw tk)
   \<and> fps (fst (projr (AG2D w cv (with_fps oo (Fin x)) nowUpdate nowDraw tk)))
       = (if x = 0 then Fin 60 else Fin x)
   \<and> \<not> isl (AG2D_module w cv (with_fps oo (Fin x)) nowDraw now)
   \<and> m_fps (fst (projr (AG2D_module w cv (with_fps oo (Fin x)) nowDraw now)))
       = (if x = 0 then Fin 60 else Fin x)"
  by (simp add: AG2D_def AG2D_module_def with_fps_def Let_def init_keeps_fps init_module_keeps_fps
      js_or_def)

theorem nonpositive_fps_accepted_witness:
  "(-30::real) \<le> 0
   \<and> \<not> isl (AG2D sample_host sample_canvas (with_fps sample_options (Fin (-30))) 0 0 sample_tick)
   \<and> fps (fst (projr (AG2D sample_host sample_canvas (with_fps sample_options (Fin (-30))) 0 0
         sample_tick))) = Fin (-30)
   \<and> \<not> isl (AG2D_module sample_host sample_canvas (with_fps sample_options (Fin (-30))) 0 1)
   \<and> m_fps (fst (projr (AG2D_module sample_host sample_canvas (with_fps sample_options (Fin (-30)))
         0 1))) = Fin (-30)"
  using nonpositive_fps_accepted [where x = "-30" and w = sample_host and cv = sample_canvas
      and oo = sample_options and nowUpdate = 0 and nowDraw = 0 and tk = sample_tick and now = 1]
  by simp

text \<open>
  With \<open>fps = 0\<close> the constructor of \<open>index.js\<close> returns an engine at 60 frames per
  second whose first tick has already run; with \<open>fps = -30\<close> the engine of
  \<open>modules/ag2d.js\<close> draws on its first tick. No \<open>InvalidConfiguration\<close> is raised.
\<close>

theorem nonpositive_fps_counterexample:
  "AG2D sample_host sample_canvas (with_fps sample_options (Fin 0)) 0 0 sample_tick
     \<noteq> Inl InvalidConfiguration
   \<and> \<not> isl (AG2D sample_host sample_canvas (with_fps sample_options (Fin 0)) 0 0 sample_tick)
   \<and> fps (fst (projr (AG2D sample_host sample_canvas (with_fps sample_options (Fin 0)) 0 0
         sample_tick))) = Fin 60
   \<and> snd (projr (AG2D sample_host sample_canvas (with_fps sample_options (Fin 0)) 0 0 sample_tick))
       = [OptionsInit, OptionsDraw, Update (Fin 1)]
   \<and> AG2D_module sample_host sample_canvas (with_fps sample_options (Fin (-30))) 0 1
     \<noteq> Inl InvalidConfiguration
   \<and> snd (projr (AG2D_module sample_host sample_canvas (with_fps sample_options (Fin (-30))) 0 1))
       = [OptionsInit, OptionsDraw, Update (Fin 1), Draw (Fin 2)]"
  by (simp add: AG2D_def AG2D_module_def with_fps_def sample_options_def sample_host_def
      sample_canvas_def sample_tick_def init_def init_module_def setUpCanvas_def renderLoop_def
      renderLoop_module_def resizeCanvas_def resizeCanvas_module_def update_def update_module_def
      draw_def draw_module_def js_or_def Let_def js_gt_def js_values_ctor js_values_ctor_rem)

text \<open>
  The quotient \<open>1000 / fps\<close> of a negative \<open>fps\<close> has the sign bit set, and for a
  double \<open>fps\<close> it is below zero.
\<close>

lemma negative_interval:
  assumes "x < 0"
  shows "is_neg (js_div (Fin 1000) (Fin x))"
    and "is_double x \<Longrightarrow> js_gt (Fin 0) (js_div (Fin 1000) (Fin x))"
proof -
  have q: "js_div (Fin 1000) (Fin x) = to_double True (1000 / \<bar>x\<bar>)"
    using assms by (simp add: js_div_def)
  show "is_neg (js_div (Fin 1000) (Fin x))" by (simp add: q is_neg_to_double)
  show "js_gt (Fin 0) (js_div (Fin 1000) (Fin x))" if "is_double x"
  proof -
    have b: "\<bar>x\<bar> < 2 ^ 1024" using is_double_round(2) [OF that] .
    have "(1::real) / 2 ^ 1022 \<le> 1000 / 2 ^ 1024" by simp
    also have "\<dots> \<le> 1000 / \<bar>x\<bar>" using b assms by (intro divide_left_mono) simp_all
    finally have "power_int 2 (- 1022) \<le> 1000 / \<bar>x\<bar>" by (simp add: power_int_minus_divide)
    then have "0 < round_mag (1000 / \<bar>x\<bar>)" by (rule round_mag_pos)
    then show ?thesis by (simp add: q to_double_def Let_def js_gt_def)
  qed
qed

text \<open>
  C10. Falsy-fps default: \<open>options.fps || 60\<close> replaces an \<open>fps\<close> of 0 by 60, so the
  interval is \<open>1000 / 60\<close> ms, the double 16.666666666666668, and no error is raised;
  a negative \<open>fps\<close> is kept and gives the negative interval \<open>1000 / fps\<close>. Both files
  agree.
\<close>

theorem falsy_fps_default:
  "\<not> isl (AG2D w cv (with_fps oo (Fin 0)) nowUpdate nowDraw tk)
   \<and> fps (fst (projr (AG2D w cv (with_fps oo (Fin 0)) nowUpdate nowDraw tk))) = Fin 60
   \<and> interval (fst (projr (AG2D w cv (with_fps oo (Fin 0)) nowUpdate nowDraw tk)))
       = js_div (Fin 1000) (Fin 60)
   \<and> \<not> isl (AG2D_module w cv (with_fps oo (Fin 0)) nowDraw now)
   \<and> m_fps (fst (projr (AG2D_module w cv (with_fps oo (Fin 0)) nowDraw now))) = Fin 60
   \<and> m_interval (fst (projr (AG2D_module w cv (with_fps oo (Fin 0)) nowDraw now)))
       = js_div (Fin 1000) (Fin 60)
   \<and> js_div (Fin 1000) (Fin 60) = Fin (4691249611844267 / 281474976710656)
   \<and> (x < 0 \<longrightarrow>
        \<not> isl (AG2D w cv (with_fps oo (Fin x)) nowUpdate nowDraw tk)
        \<and> fps (fst (projr (AG2D w cv (with_fps oo (Fin x)) nowUpdate nowDraw tk))) = Fin x
        \<and> interval (fst (projr (AG2D w cv (with_fps oo (Fin x)) nowUpdate nowDraw tk)))
            = js_div (Fin 1000) (Fin x)
        \<and> \<not> isl (AG2D_module w cv (with_fps oo (Fin x)) nowDraw now)
        \<and> m_fps (fst (projr (AG2D_module w cv (with_fps oo (Fin x)) nowDraw now))) = Fin x
        \<and> m_interval (fst (projr (AG2D_module w cv (with_fps oo (Fin x)) nowDraw now)))
            = js_div (Fin 1000) (Fin x)
        \<and> is_neg (js_div (Fin 1000) (Fin x))
        \<and> (is_double x \<longrightarrow> js_gt (Fin 0) (js_div (Fin 1000) (Fin x))))"
  using negative_interval [of x]
  by (simp add: AG2D_def AG2D_module_def with_fps_def Let_def init_keeps_fps init_module_keeps_fps
      js_or_def js_values_ctor)

theorem falsy_fps_default_witness:
  "(- 30::real) < 0 \<and> is_double (- 30)
   \<and> fps (fst (projr (AG2D sample_host sample_canvas (with_fps sample_options (Fin (- 30))) 0 0
         sample_tick))) = Fin (- 30)
   \<and> interval (fst (projr (AG2D sample_host sample_canvas (with_fps sample_options (Fin (- 30))) 0 0
         sample_tick))) = Fin (- (4691249611844267 / 140737488355328))
   \<and> m_interval (fst (projr (AG2D_module sample_host sample_canvas
         (with_fps sample_options (Fin (- 30))) 0 1))) = Fin (- (4691249611844267 / 140737488355328))
   \<and> js_gt (Fin 0) (js_div (Fin 1000) (Fin (- 30)))
   \<and> interval (fst (projr (AG2D sample_host sample_canvas (with_fps sample_options (Fin 0)) 0 0
         sample_tick))) = Fin (4691249611844267 / 281474976710656)"
  using falsy_fps_default [where x = "- 30" and w = sample_host and cv = sample_canvas
      and oo = sample_options and nowUpdate = 0 and nowDraw = 0 and tk = sample_tick and now = 1]
    is_double_values
  by (simp add: js_values_ctor)

section \<open>Animation definitions\<close>

text \<open>
  C9. Animation definition validation, against the validator as the specification
  describes it and the schema of \<open>Animation.js\<close>: a record that omits \<open>context\<close>,
  \<open>frames\<close>, \<open>name\<close> or \<open>spriteSheet\<close> fails with \<open>InvalidConfiguration\<close> and
  yields no object; a valid record that omits \<open>fps\<close> gets \<open>fps = 60\<close>, and one that
  omits \<open>loop\<close> gets \<open>loop = true\<close>. A record is valid when its frames are a
  non-empty sequence and a given \<open>fps\<close> is a positive number; an empty \<open>frames\<close> or
  a non-positive \<open>fps\<close> fails as well.
\<close>

theorem animation_validation:
  "(k \<in> {''context'', ''frames'', ''name'', ''spriteSheet''} \<longrightarrow> props k = None \<longrightarrow>
      Animation props = Inl InvalidConfiguration)
   \<and> (props_a ''context'' = Some c \<and> props_a ''frames'' = Some (VArray fs) \<and> fs \<noteq> []
        \<and> props_a ''name'' = Some (VString n) \<and> props_a ''spriteSheet'' = Some (VObject sp)
        \<and> props_a ''fps'' = None \<and> props_a ''loop'' = None \<longrightarrow>
      Animation props_a =
        Inr [(''context'', c), (''fps'', VNumber (Fin 60)), (''frames'', VArray fs),
             (''loop'', VBoolean True), (''name'', VString n), (''spriteSheet'', VObject sp)])
   \<and> (props_b ''context'' = Some c \<and> props_b ''frames'' = Some (VArray fs) \<and> fs \<noteq> []
        \<and> props_b ''name'' = Some (VString n) \<and> props_b ''spriteSheet'' = Some (VObject sp)
        \<and> props_b ''fps'' = None \<and> props_b ''loop'' = Some (VBoolean b) \<longrightarrow>
      Animation props_b =
        Inr [(''context'', c), (''fps'', VNumber (Fin 60)), (''frames'', VArray fs),
             (''loop'', VBoolean b), (''name'', VString n), (''spriteSheet'', VObject sp)])
   \<and> (props_c ''context'' = Some c \<and> props_c ''frames'' = Some (VArray fs) \<and> fs \<noteq> []
        \<and> props_c ''name'' = Some (VString n) \<and> props_c ''spriteSheet'' = Some (VObject sp)
        \<and> props_c ''fps'' = Some (VNumber (Fin f)) \<and> 0 < f \<and> props_c ''loop'' = None \<longrightarrow>
      Animation props_c =
        Inr [(''context'', c), (''fps'', VNumber (Fin f)), (''frames'', VArray fs),
             (''loop'', VBoolean True), (''name'', VString n), (''spriteSheet'', VObject sp)])
   \<and> (props_d ''frames'' = Some (VArray []) \<or> props_d ''fps'' = Some (VNumber (Fin g)) \<and> g \<le> 0 \<longrightarrow>
      Animation props_d = Inl InvalidConfiguration)"
  by (cases c) (auto simp add: Animation_def Animation_schema_def js_gt_def
      split: option.splits sum.splits)

theorem animation_validation_witness:
  "''spriteSheet'' \<in> {''context'', ''frames'', ''name'', ''spriteSheet''}
   \<and> map_of [(''context'', VString ''2d''), (''frames'', VArray [VObject []]),
        (''name'', VString ''walk'')] ''spriteSheet'' = None
   \<and> Animation (map_of [(''context'', VString ''2d''), (''frames'', VArray [VObject []]),
        (''name'', VString ''walk'')]) = Inl InvalidConfiguration
   \<and> [VObject []] \<noteq> []
   \<and> Animation (map_of [(''context'', VString ''2d''), (''frames'', VArray [VObject []]),
        (''name'', VString ''walk''), (''spriteSheet'', VObject [])])
       = Inr [(''context'', VString ''2d''), (''fps'', VNumber (Fin 60)),
              (''frames'', VArray [VObject []]), (''loop'', VBoolean True),
              (''name'', VString ''walk''), (''spriteSheet'', VObject [])]
   \<and> Animation (map_of [(''context'', VString ''2d''), (''frames'', VArray [VObject []]),
        (''name'', VString ''walk''), (''spriteSheet'', VObject []), (''loop'', VBoolean False)])
       = Inr [(''context'', VString ''2d''), (''fps'', VNumber (Fin 60)),
              (''frames'', VArray [VObject []]), (''loop'', VBoolean False),
              (''name'', VString ''walk''), (''spriteSheet'', VObject [])]
   \<and> (0::real) < 12
   \<and> Animation (map_of [(''context'', VString ''2d''), (''frames'', VArray [VObject []]),
        (''name'', VString ''walk''), (''spriteSheet'', VObject []), (''fps'', VNumber (Fin 12))])
       = Inr [(''context'', VString ''2d''), (''fps'', VNumber (Fin 12)),
              (''frames'', VArray [VObject []]), (''loop'', VBoolean True),
              (''name'', VString ''walk''), (''spriteSheet'', VObject [])]
   \<and> Animation (map_of [(''context'', VString ''2d''), (''frames'', VArray []),
        (''name'', VString ''walk''), (''spriteSheet'', VObject [])]) = Inl InvalidConfiguration"
  using animation_validation [where k = "''spriteSheet''"
      and props = "map_of [(''context'', VString ''2d''), (''frames'', VArray [VObject []]),
        (''name'', VString ''walk'')]"
      and props_a = "map_of [(''context'', VString ''2d''), (''frames'', VArray [VObject []]),
        (''name'', VString ''walk''), (''spriteSheet'', VObject [])]"
      and props_b = "map_of [(''context'', VString ''2d''), (''frames'', VArray [VObject []]),
        (''name'', VString ''walk''), (''spriteSheet'', VObject []), (''loop'', VBoolean False)]"
      and props_c = "map_of [(''context'', VString ''2d''), (''frames'', VArray [VObject []]),
        (''name'', VString ''walk''), (''spriteSheet'', VObject []), (''fps'', VNumber (Fin 12))]"
      and props_d = "map_of [(''context'', VString ''2d''), (''frames'', VArray []),
        (''name'', VString ''walk''), (''spriteSheet'', VObject [])]"
      and c = "VString ''2d''" and fs = "[VObject []]" and n = "''walk''" and sp = "[]"
      and b = False and f = 12 and g = 0]
  by simp

end
